theory Spec2Isabelle
  imports Main
begin

section \<open>The invite registration pager\<close>

text \<open>
  A shallow embedding of \<^verbatim>\<open>InviteRegistrationPager.tsx\<close> and of the defaults exported by
  \<^verbatim>\<open>AccountDetails.tsx\<close>. The component is a function of three inputs it does not own
  (the injected UI context, the route parameters, the registration store) and of its own
  \<^verbatim>\<open>useState\<close> cells. The cells are one record that every handler takes and returns;
  what a handler asks of the outside world (navigation, requests of the auth library) is
  the list of effects it returns; what a request answers is an argument of the handler
  that awaits it. Rendering is modelled as far as it decides something: the page list, the
  top-level view, the error dialog.

  JavaScript numbers are modelled as \<open>int\<close>: the page index and \<^verbatim>\<open>delta\<close> are whole
  numbers at every call site. A state setter is modelled as taking effect at once.
\<close>

subsection \<open>JavaScript values\<close>

datatype js_error = TypeError | Rejection string

text \<open>The operator \<^verbatim>\<open>a ?? b\<close>: \<open>None\<close> stands for \<^verbatim>\<open>null\<close> and \<^verbatim>\<open>undefined\<close>.\<close>

definition nullish_or :: "'a option \<Rightarrow> 'a \<Rightarrow> 'a" where
  "nullish_or a b = (case a of None \<Rightarrow> b | Some v \<Rightarrow> v)"

text \<open>Template literals print a number in decimal.\<close>

fun digit_string :: "nat \<Rightarrow> string" where
  "digit_string n =
     (if n < 10 then [char_of (48 + n)]
      else digit_string (n div 10) @ [char_of (48 + n mod 10)])"

declare digit_string.simps [simp del]

text \<open>
  The values of a custom details object. The type \<^verbatim>\<open>CustomAccountDetails\<close> belongs to the
  shared auth library; its fields hold strings, numbers or booleans.
\<close>

datatype detail_value = DString string | DNumber int | DBoolean bool

type_synonym details_obj = "string \<rightharpoonup> detail_value"

text \<open>
  An object with integer keys, as an association list. \<^verbatim>\<open>Object.keys\<close> lists integer keys
  in ascending order, so \<open>obj_put\<close> keeps the list ordered and replaces an existing key;
  a read is \<open>map_of\<close>.
\<close>

fun obj_put :: "nat \<Rightarrow> 'v \<Rightarrow> (nat \<times> 'v) list \<Rightarrow> (nat \<times> 'v) list" where
  "obj_put k v [] = [(k, v)]"
| "obj_put k v ((k', v') # rest) =
     (if k = k' then (k, v) # rest
      else if k < k' then (k, v) # (k', v') # rest
      else (k', v') # obj_put k v rest)"

definition Object_keys :: "(nat \<times> 'v) list \<Rightarrow> nat list" where
  "Object_keys obj = map fst obj"

subsection \<open>Data\<close>

record AccountDetailInformation =
  firstName :: string
  lastName :: string

text \<open>\<^verbatim>\<open>emptyAccountDetailInformation\<close> is an object literal; spreading reads it by key.\<close>

definition emptyAccountDetailInformation :: details_obj where
  "emptyAccountDetailInformation =
     [''firstName'' \<mapsto> DString '''', ''lastName'' \<mapsto> DString '''']"

definition spread_details :: "AccountDetailInformation \<Rightarrow> details_obj" where
  "spread_details d =
     [''firstName'' \<mapsto> DString (firstName d), ''lastName'' \<mapsto> DString (lastName d)]"

record custom_entry =
  entry_values :: details_obj
  entry_valid :: bool

record TransitState =
  transitInProgress :: bool
  transitErrorMessage :: "string option"
  transitSuccess :: bool
  transitComplete :: bool

text \<open>The part of the registration store the component reads.\<close>

record registration_state =
  registrationTransit :: TransitState
  validationTransit :: TransitState
  eulaTransit :: TransitState

record InviteRegistrationPagerParams =
  code :: "string option"
  email :: "string option"

text \<open>
  \<^verbatim>\<open>injectedUIContext.customAccountDetails\<close>: an optional list of components, each of which
  may be \<^verbatim>\<open>null\<close>. A component is named by a string; what it draws is not modelled.
\<close>

type_synonym component = string

record injected_context =
  customAccountDetails_ctx :: "component option list option"

record RegistrationPage =
  name :: string
  pageTitle :: string
  canGoForward :: "bool option"
  canGoBack :: "bool option"

text \<open>The \<^verbatim>\<open>useState\<close> cells, with their initial values.\<close>

record pager_state =
  hasAcknowledgedError :: bool
  eulaAccepted :: bool
  password :: string
  accountDetails :: "AccountDetailInformation option"
  customAccountDetails :: "(nat \<times> custom_entry) list option"
  eulaContent :: "string option"
  currentPage :: int
  accountAlreadyExists :: bool

definition initial_state :: pager_state where
  "initial_state =
     \<lparr>hasAcknowledgedError = False, eulaAccepted = False, password = '''',
      accountDetails = None, customAccountDetails = Some [], eulaContent = None,
      currentPage = 0, accountAlreadyExists = False\<rparr>"

record registration_payload =
  payload_password :: string
  payload_accountDetails :: details_obj

datatype effect =
    Navigate string
  | LoadEULA string
  | ValidateUserRegistrationRequest string "string option"
  | CompleteRegistration registration_payload string "string option"

text \<open>How an \<^verbatim>\<open>async\<close> function ends: its promise resolves or rejects.\<close>

datatype completion = Resolved | Rejected js_error

text \<open>
  \<^verbatim>\<open>try { ... } catch { ... }\<close> over a block that has run to a completion and a state:
  the handler runs when the block threw.
\<close>

definition try_catch ::
  "completion \<times> pager_state \<Rightarrow> (js_error \<Rightarrow> pager_state \<Rightarrow> completion \<times> pager_state)
     \<Rightarrow> completion \<times> pager_state" where
  "try_catch block handler =
     (case block of (Resolved, s) \<Rightarrow> (Resolved, s) | (Rejected e, s) \<Rightarrow> handler e s)"

text \<open>The handler \<^verbatim>\<open>catch { /* do nothing */ }\<close>.\<close>

definition do_nothing :: "js_error \<Rightarrow> pager_state \<Rightarrow> completion \<times> pager_state" where
  "do_nothing e s = (Resolved, s)"

subsection \<open>Route parameters\<close>

definition validationCode :: "InviteRegistrationPagerParams option \<Rightarrow> string" where
  "validationCode routeParams =
     nullish_or (case routeParams of None \<Rightarrow> None | Some p \<Rightarrow> code p) ''NoCodeEntered''"

definition validationEmail :: "InviteRegistrationPagerParams option \<Rightarrow> string option" where
  "validationEmail routeParams = (case routeParams of None \<Rightarrow> None | Some p \<Rightarrow> email p)"

subsection \<open>Page definitions\<close>

text \<open>Titles are kept as translation keys; the lookup \<^verbatim>\<open>t\<close> is the library's.\<close>

definition customDetails :: "injected_context \<Rightarrow> component option list" where
  "customDetails ctx = (case customAccountDetails_ctx ctx of None \<Rightarrow> [] | Some l \<Rightarrow> l)"

definition custom_page :: "nat \<Rightarrow> RegistrationPage" where
  "custom_page i =
     \<lparr>name = ''CustomPage'' @ digit_string (i + 1),
      pageTitle = ''REGISTRATION.STEPS.ACCOUNT_DETAILS'',
      canGoForward = Some True, canGoBack = Some True\<rparr>"

definition custom_pages :: "injected_context \<Rightarrow> RegistrationPage list" where
  "custom_pages ctx =
     map (\<lambda>(page, i). custom_page i)
       (zip (filter (\<lambda>item. item \<noteq> None) (drop 1 (customDetails ctx)))
            [0 ..< length (filter (\<lambda>item. item \<noteq> None) (drop 1 (customDetails ctx)))])"

definition RegistrationPages :: "injected_context \<Rightarrow> pager_state \<Rightarrow> RegistrationPage list" where
  "RegistrationPages ctx s =
     [\<lparr>name = ''Eula'', pageTitle = ''REGISTRATION.STEPS.LICENSE'',
       canGoForward = Some (eulaAccepted s), canGoBack = Some False\<rparr>,
      \<lparr>name = ''CreatePassword'', pageTitle = ''REGISTRATION.STEPS.PASSWORD'',
       canGoForward = Some (length (password s) > 0), canGoBack = Some True\<rparr>,
      \<lparr>name = ''AccountDetails'', pageTitle = ''REGISTRATION.STEPS.ACCOUNT_DETAILS'',
       canGoForward = Some (accountDetails s \<noteq> None), canGoBack = Some True\<rparr>]
     @ custom_pages ctx
     @ [\<lparr>name = ''Complete'', pageTitle = ''REGISTRATION.STEPS.COMPLETE'',
         canGoForward = Some True, canGoBack = Some False\<rparr>]"

definition isLastStep :: "injected_context \<Rightarrow> pager_state \<Rightarrow> bool" where
  "isLastStep ctx s \<longleftrightarrow> currentPage s = int (length (RegistrationPages ctx s)) - 1"

definition isFirstStep :: "pager_state \<Rightarrow> bool" where
  "isFirstStep s \<longleftrightarrow> currentPage s = 0"

definition CompletePage :: "injected_context \<Rightarrow> pager_state \<Rightarrow> int" where
  "CompletePage ctx s = int (length (RegistrationPages ctx s)) - 1"

text \<open>
  \<^verbatim>\<open>RegistrationPages[currentPage]\<close>: outside the list the read gives \<^verbatim>\<open>undefined\<close>, and
  reading a property of it throws.
\<close>

definition page_at :: "RegistrationPage list \<Rightarrow> int \<Rightarrow> js_error + RegistrationPage" where
  "page_at pages i =
     (if 0 \<le> i \<and> i < int (length pages) then Inr (pages ! nat i) else Inl TypeError)"

definition canProgress :: "injected_context \<Rightarrow> pager_state \<Rightarrow> js_error + bool" where
  "canProgress ctx s =
     (case page_at (RegistrationPages ctx s) (currentPage s) of
        Inl e \<Rightarrow> Inl e
      | Inr page \<Rightarrow> Inr (nullish_or (canGoForward page) False))"

definition canGoBackProgress :: "injected_context \<Rightarrow> pager_state \<Rightarrow> js_error + bool" where
  "canGoBackProgress ctx s =
     (case page_at (RegistrationPages ctx s) (currentPage s) of
        Inl e \<Rightarrow> Inl e
      | Inr page \<Rightarrow> Inr (nullish_or (canGoBack page) True))"

subsection \<open>Network state read from the store\<close>

definition registrationIsInTransit :: "registration_state \<Rightarrow> bool" where
  "registrationIsInTransit rs = transitInProgress (registrationTransit rs)"

definition hasRegistrationTransitError :: "registration_state \<Rightarrow> bool" where
  "hasRegistrationTransitError rs \<longleftrightarrow> transitErrorMessage (registrationTransit rs) \<noteq> None"

definition registrationTransitErrorMessage ::
  "(string \<Rightarrow> string) \<Rightarrow> registration_state \<Rightarrow> string" where
  "registrationTransitErrorMessage t rs =
     nullish_or (transitErrorMessage (registrationTransit rs)) (t ''MESSAGES.REQUEST_ERROR'')"

definition registrationSuccess :: "registration_state \<Rightarrow> bool" where
  "registrationSuccess rs = transitSuccess (registrationTransit rs)"

definition isValidationInTransit :: "registration_state \<Rightarrow> bool" where
  "isValidationInTransit rs = transitInProgress (validationTransit rs)"

definition validationTransitErrorMessage :: "registration_state \<Rightarrow> string option" where
  "validationTransitErrorMessage rs = transitErrorMessage (validationTransit rs)"

definition validationSuccess :: "registration_state \<Rightarrow> bool" where
  "validationSuccess rs = transitSuccess (validationTransit rs)"

definition validationComplete :: "registration_state \<Rightarrow> bool" where
  "validationComplete rs = transitComplete (validationTransit rs)"

definition loadEulaTransitErrorMessage :: "registration_state \<Rightarrow> string option" where
  "loadEulaTransitErrorMessage rs = transitErrorMessage (eulaTransit rs)"

subsection \<open>Async operations\<close>

text \<open>
  \<^verbatim>\<open>await request\<close>: the answer of the request is an argument, \<open>Inl\<close> when the promise
  rejects. A rejection leaves the block at once, with the state as it is.
\<close>

definition await ::
  "js_error + 'a \<Rightarrow> pager_state \<Rightarrow> ('a \<Rightarrow> completion \<times> pager_state)
     \<Rightarrow> completion \<times> pager_state" where
  "await response s cont = (case response of Inl e \<Rightarrow> (Rejected e, s) | Inr v \<Rightarrow> cont v)"

text \<open>
  An operation returns how its promise ends, the cells after it, and the requests it
  sent. \<^verbatim>\<open>!eulaContent\<close> holds for \<^verbatim>\<open>undefined\<close> and for the empty string.
\<close>

definition loadAndCacheEula ::
  "string \<Rightarrow> pager_state \<Rightarrow> js_error + string \<Rightarrow> completion \<times> pager_state \<times> effect list" where
  "loadAndCacheEula language s response =
     (if eulaContent s = None \<or> eulaContent s = Some '''' then
        (let (c, s') =
               try_catch
                 (await response s (\<lambda>eulaText. (Resolved, s\<lparr>eulaContent := Some eulaText\<rparr>)))
                 do_nothing
         in (c, s', [LoadEULA language]))
      else (Resolved, s, []))"

definition validateCode ::
  "InviteRegistrationPagerParams option \<Rightarrow> pager_state \<Rightarrow> js_error + bool
     \<Rightarrow> completion \<times> pager_state \<times> effect list" where
  "validateCode routeParams s response =
     (let s1 = s\<lparr>hasAcknowledgedError := False\<rparr>;
          (c, s2) =
            try_catch
              (await response s1 (\<lambda>registrationComplete.
                 if registrationComplete then (Resolved, s1\<lparr>accountAlreadyExists := True\<rparr>)
                 else (Resolved, s1)))
              do_nothing
      in (c, s2,
          [ValidateUserRegistrationRequest (validationCode routeParams)
             (validationEmail routeParams)]))"

text \<open>
  The loop of \<^verbatim>\<open>attemptRegistration\<close> over \<^verbatim>\<open>Object.keys\<close>: each entry's values are spread
  over what was collected, later keys winning. Reading \<^verbatim>\<open>.values\<close> of a missing entry
  throws.
\<close>

fun flatten_details ::
  "(nat \<times> custom_entry) list \<Rightarrow> nat list \<Rightarrow> details_obj \<Rightarrow> js_error + details_obj" where
  "flatten_details obj [] flattenedDetails = Inr flattenedDetails"
| "flatten_details obj (key # keys) flattenedDetails =
     (case map_of obj key of
        None \<Rightarrow> Inl TypeError
      | Some entry \<Rightarrow> flatten_details obj keys (flattenedDetails ++ entry_values entry))"

definition flattenedDetails :: "pager_state \<Rightarrow> js_error + details_obj" where
  "flattenedDetails s =
     (let obj = nullish_or (customAccountDetails s) []
      in flatten_details obj (Object_keys obj) Map.empty)"

definition attemptRegistration ::
  "InviteRegistrationPagerParams option \<Rightarrow> pager_state \<Rightarrow> js_error + unit
     \<Rightarrow> completion \<times> pager_state \<times> effect list" where
  "attemptRegistration routeParams s response =
     (let s1 = s\<lparr>hasAcknowledgedError := False\<rparr> in
      case flattenedDetails s of
        Inl e \<Rightarrow> (Rejected e, s1, [])
      | Inr flat \<Rightarrow>
          (let (c, s2) = try_catch (await response s1 (\<lambda>_. (Resolved, s1))) do_nothing
           in (c, s2,
               [CompleteRegistration
                  \<lparr>payload_password = password s,
                   payload_accountDetails =
                     nullish_or (map_option spread_details (accountDetails s))
                       emptyAccountDetailInformation ++ flat\<rparr>
                  (validationCode routeParams) (validationEmail routeParams)])))"

subsection \<open>Effects of the component\<close>

text \<open>The effect on \<^verbatim>\<open>[registrationSuccess]\<close>.\<close>

definition registrationSuccessEffect ::
  "injected_context \<Rightarrow> registration_state \<Rightarrow> pager_state \<Rightarrow> pager_state" where
  "registrationSuccessEffect ctx rs s =
     (if currentPage s = int (length (RegistrationPages ctx s)) - 2 \<and> registrationSuccess rs
      then s\<lparr>currentPage := CompletePage ctx s\<rparr>
      else s)"

text \<open>
  The effect that validates the invite code. \<^verbatim>\<open>void validateCode()\<close> drops the promise:
  the caller goes on whatever its end.
\<close>

definition validationEffect ::
  "InviteRegistrationPagerParams option \<Rightarrow> registration_state \<Rightarrow> pager_state
     \<Rightarrow> js_error + bool \<Rightarrow> pager_state \<times> effect list" where
  "validationEffect routeParams rs s response =
     (if \<not> isValidationInTransit rs \<and> \<not> validationComplete rs
         \<and> length (validationCode routeParams) > 0
      then (let (c, s', requests) = validateCode routeParams s response in (s', requests))
      else (s, []))"

text \<open>The cleanup on dismissal dispatches the two resets of the store.\<close>

datatype store_action = RegisterUserReset | ValidateUserRegistrationReset

definition dismissalCleanup :: "store_action list" where
  "dismissalCleanup = [RegisterUserReset, ValidateUserRegistrationReset]"

subsection \<open>The error dialog\<close>

record SimpleDialog =
  dialog_title :: string
  dialog_bodyText :: string
  dialog_visible :: bool

definition errorDialog ::
  "(string \<Rightarrow> string) \<Rightarrow> registration_state \<Rightarrow> pager_state \<Rightarrow> SimpleDialog" where
  "errorDialog t rs s =
     \<lparr>dialog_title = t ''MESSAGES.ERROR'',
      dialog_bodyText = t (registrationTransitErrorMessage t rs),
      dialog_visible = (hasRegistrationTransitError rs \<and> \<not> hasAcknowledgedError s)\<rparr>"

definition onDismiss :: "pager_state \<Rightarrow> pager_state" where
  "onDismiss s = s\<lparr>hasAcknowledgedError := True\<rparr>"

subsection \<open>The Eula page\<close>

text \<open>
  The data the first page's body is given (its two callbacks are \<open>loadAndCacheEula\<close> and
  the setter of \<^verbatim>\<open>eulaAccepted\<close>). \<open>htmlEula\<close> is \<^verbatim>\<open>injectedUIContext.htmlEula\<close>, which may
  be absent.
\<close>

record EulaScreen =
  eula_eulaAccepted :: bool
  eula_htmlEula :: bool
  eula_eulaError :: "string option"
  eula_eulaContent :: "string option"

definition EulaPage_body :: "bool option \<Rightarrow> registration_state \<Rightarrow> pager_state \<Rightarrow> EulaScreen" where
  "EulaPage_body htmlEula rs s =
     \<lparr>eula_eulaAccepted = eulaAccepted s,
      eula_htmlEula = nullish_or htmlEula False,
      eula_eulaError = loadEulaTransitErrorMessage rs,
      eula_eulaContent = eulaContent s\<rparr>"

subsection \<open>Screen transition logic\<close>

text \<open>
  \<^verbatim>\<open>advancePage\<close> returns the cells and the effects, or the error thrown by \<^verbatim>\<open>canProgress\<close>.
  The conjunction of the registration branch is evaluated left to right, so
  \<^verbatim>\<open>canProgress\<close> is only called on the second-to-last page before registration has
  succeeded. \<^verbatim>\<open>response\<close> is what the registration request answers, should it be sent.
\<close>

definition advancePage ::
  "injected_context \<Rightarrow> InviteRegistrationPagerParams option \<Rightarrow> registration_state
     \<Rightarrow> js_error + unit \<Rightarrow> pager_state \<Rightarrow> int \<Rightarrow> js_error + pager_state \<times> effect list" where
  "advancePage ctx routeParams rs response s delta =
     (if delta = 0 then Inr (s, [])
      else if isFirstStep s \<and> delta < 0 then Inr (s, [Navigate ''Login''])
      else if isLastStep ctx s \<and> delta > 0 then Inr (s, [Navigate ''Login''])
      else if currentPage s = int (length (RegistrationPages ctx s)) - 2
              \<and> \<not> registrationSuccess rs
      then (case canProgress ctx s of
              Inl e \<Rightarrow> Inl e
            | Inr forward \<Rightarrow>
                if forward \<and> delta > 0
                then (let (c, s', requests) = attemptRegistration routeParams s response
                      in Inr (s', requests))
                else Inr (s\<lparr>currentPage := currentPage s + delta\<rparr>, []))
      else Inr (s\<lparr>currentPage := currentPage s + delta\<rparr>, []))"

definition backLogic ::
  "injected_context \<Rightarrow> InviteRegistrationPagerParams option \<Rightarrow> registration_state
     \<Rightarrow> js_error + unit \<Rightarrow> pager_state \<Rightarrow> js_error + pager_state \<times> effect list" where
  "backLogic ctx routeParams rs response s =
     (if isFirstStep s then Inr (s, [Navigate ''Login''])
      else (case canGoBackProgress ctx s of
              Inl e \<Rightarrow> Inl e
            | Inr back \<Rightarrow>
                if back then advancePage ctx routeParams rs response s (- 1)
                else if isLastStep ctx s then Inr (s, [Navigate ''Login''])
                else Inr (s, [])))"

text \<open>
  A custom page reports its details: the entry of its key is replaced in a copy of the
  object (\<^verbatim>\<open>null\<close> spreads as the empty object).
\<close>

definition customDetailsChanged :: "nat \<Rightarrow> details_obj \<Rightarrow> bool \<Rightarrow> pager_state \<Rightarrow> pager_state" where
  "customDetailsChanged i details valid s =
     s\<lparr>customAccountDetails :=
         Some (obj_put (i + 1) \<lparr>entry_values = details, entry_valid = valid\<rparr>
                 (nullish_or (customAccountDetails s) []))\<rparr>"

subsection \<open>Top-level rendering\<close>

datatype view =
    WizardView
  | ExistingAccountView
  | LoadingView
  | ErrorStateView "string option"

definition render :: "registration_state \<Rightarrow> pager_state \<Rightarrow> view" where
  "render rs s =
     (if \<not> accountAlreadyExists s \<and> validationSuccess rs \<and> \<not> isValidationInTransit rs
      then WizardView
      else if accountAlreadyExists s then ExistingAccountView
      else if \<not> validationComplete rs then LoadingView
      else ErrorStateView (validationTransitErrorMessage rs))"

text \<open>
  The selection as the specification words it, for comparison with \<open>render\<close>: existing
  account first, then validation succeeded and not in flight, then validation not
  complete, then validation failed.
\<close>

definition render_by_priority :: "registration_state \<Rightarrow> pager_state \<Rightarrow> view" where
  "render_by_priority rs s =
     (if accountAlreadyExists s then ExistingAccountView
      else if validationSuccess rs \<and> \<not> isValidationInTransit rs then WizardView
      else if \<not> validationComplete rs then LoadingView
      else ErrorStateView (validationTransitErrorMessage rs))"

subsection \<open>Reachable cells\<close>

text \<open>
  The cells the component can reach under a fixed injected context: from the initial
  values, by the Next and Back buttons and a custom page's submit (\<^verbatim>\<open>advancePage(1)\<close>,
  \<^verbatim>\<open>advancePage(-1)\<close>), by the hardware back button, by the registration-success effect, and
  by any handler that leaves the page index alone (the form setters, the async operations,
  the dialog).
\<close>

inductive reachable :: "injected_context \<Rightarrow> pager_state \<Rightarrow> bool" for ctx where
  at_mount: "reachable ctx initial_state"
| by_advancePage:
    "reachable ctx s \<Longrightarrow> delta \<in> {- 1, 0, 1}
       \<Longrightarrow> advancePage ctx routeParams rs response s delta = Inr (s', effects)
       \<Longrightarrow> reachable ctx s'"
| by_backLogic:
    "reachable ctx s \<Longrightarrow> backLogic ctx routeParams rs response s = Inr (s', effects)
       \<Longrightarrow> reachable ctx s'"
| by_success_effect: "reachable ctx s \<Longrightarrow> reachable ctx (registrationSuccessEffect ctx rs s)"
| by_other_handler: "reachable ctx s \<Longrightarrow> currentPage s' = currentPage s \<Longrightarrow> reachable ctx s'"

subsection \<open>Inputs used in the examples\<close>

definition idle_transit :: TransitState where
  "idle_transit =
     \<lparr>transitInProgress = False, transitErrorMessage = None,
      transitSuccess = False, transitComplete = False\<rparr>"

definition succeeded_transit :: TransitState where
  "succeeded_transit =
     \<lparr>transitInProgress = False, transitErrorMessage = None,
      transitSuccess = True, transitComplete = True\<rparr>"

definition store_idle :: registration_state where
  "store_idle =
     \<lparr>registrationTransit = idle_transit, validationTransit = idle_transit,
      eulaTransit = idle_transit\<rparr>"

definition store_validated :: registration_state where
  "store_validated =
     \<lparr>registrationTransit = idle_transit, validationTransit = succeeded_transit,
      eulaTransit = idle_transit\<rparr>"

definition store_registered :: registration_state where
  "store_registered =
     \<lparr>registrationTransit = succeeded_transit, validationTransit = succeeded_transit,
      eulaTransit = idle_transit\<rparr>"

definition no_custom_pages :: injected_context where
  "no_custom_pages = \<lparr>customAccountDetails_ctx = None\<rparr>"

definition two_custom_forms :: injected_context where
  "two_custom_forms = \<lparr>customAccountDetails_ctx = Some [Some ''Phone'', Some ''Address'']\<rparr>"

text \<open>
  Cells on the AccountDetails page (index 2) with the name fields still empty, with both
  names entered, and with a custom page's phone number reported under key 1.
\<close>

definition on_account_details :: pager_state where
  "on_account_details =
     initial_state\<lparr>eulaAccepted := True, password := ''secret'', currentPage := 2\<rparr>"

definition details_entered :: pager_state where
  "details_entered =
     on_account_details\<lparr>accountDetails := Some \<lparr>firstName = ''Ada'', lastName = ''Byron''\<rparr>\<rparr>"

definition phone_entered :: pager_state where
  "phone_entered =
     customDetailsChanged 0 [''phone'' \<mapsto> DString ''555''] True on_account_details"

text \<open>
  A store after a validation that failed, and a store after a EULA load that failed; in
  both the registration transit is idle.
\<close>

definition failed_transit :: "string \<Rightarrow> TransitState" where
  "failed_transit message =
     \<lparr>transitInProgress = False, transitErrorMessage = Some message,
      transitSuccess = False, transitComplete = True\<rparr>"

definition store_validation_failed :: registration_state where
  "store_validation_failed =
     \<lparr>registrationTransit = idle_transit, validationTransit = failed_transit ''Invalid code'',
      eulaTransit = idle_transit\<rparr>"

definition store_eula_failed :: registration_state where
  "store_eula_failed =
     \<lparr>registrationTransit = idle_transit, validationTransit = succeeded_transit,
      eulaTransit = failed_transit ''No connection''\<rparr>"

section \<open>Properties\<close>

subsection \<open>The page list\<close>

lemma length_custom_pages:
  "length (custom_pages ctx)
     = length (filter (\<lambda>item. item \<noteq> None) (drop 1 (customDetails ctx)))"
  by (simp add: custom_pages_def)

text \<open>Three fixed pages, the custom pages, the Complete page: never fewer than four.\<close>

lemma length_RegistrationPages:
  "length (RegistrationPages ctx s) = 4 + length (custom_pages ctx)"
  by (simp add: RegistrationPages_def)

lemma length_RegistrationPages_cells:
  "length (RegistrationPages ctx s') = length (RegistrationPages ctx s)"
  by (simp add: length_RegistrationPages)

lemma no_custom_pages_length: "length (RegistrationPages no_custom_pages s) = 4"
  by (simp add: length_RegistrationPages custom_pages_def customDetails_def no_custom_pages_def)

text \<open>On the second-to-last page \<open>canProgress\<close> reads inside the list, so it does not throw.\<close>

lemma canProgress_second_to_last:
  assumes "currentPage s = int (length (RegistrationPages ctx s)) - 2"
  shows "canProgress ctx s =
           Inr (nullish_or
                  (canGoForward (RegistrationPages ctx s ! (2 + length (custom_pages ctx))))
                  False)"
proof -
  have idx: "nat (currentPage s) = 2 + length (custom_pages ctx)"
    using assms by (simp add: length_RegistrationPages)
  have "0 \<le> currentPage s" "currentPage s < int (length (RegistrationPages ctx s))"
    using assms by (simp_all add: length_RegistrationPages)
  then show ?thesis
    by (simp add: canProgress_def page_at_def idx)
qed

subsection \<open>The async operations end normally\<close>

text \<open>Every key that \<open>Object_keys\<close> lists has an entry, so the flattening loop never throws.\<close>

lemma flatten_details_total:
  "set keys \<subseteq> fst ` set obj \<Longrightarrow> \<exists>flat. flatten_details obj keys acc = Inr flat"
proof (induction keys arbitrary: acc)
  case Nil
  then show ?case by simp
next
  case (Cons key keys)
  from Cons.prems have "key \<in> fst ` set obj" by simp
  then obtain entry where "map_of obj key = Some entry"
    by (metis map_of_eq_None_iff not_Some_eq)
  moreover from Cons.prems have "set keys \<subseteq> fst ` set obj" by simp
  ultimately show ?case using Cons.IH by simp
qed

lemma flattenedDetails_total: "\<exists>flat. flattenedDetails s = Inr flat"
  unfolding flattenedDetails_def Let_def Object_keys_def
  by (rule flatten_details_total) simp

lemma attemptRegistration_result:
  assumes "flattenedDetails s = Inr flat"
  shows "attemptRegistration routeParams s response =
           (Resolved, s\<lparr>hasAcknowledgedError := False\<rparr>,
            [CompleteRegistration
               \<lparr>payload_password = password s,
                payload_accountDetails =
                  nullish_or (map_option spread_details (accountDetails s))
                    emptyAccountDetailInformation ++ flat\<rparr>
               (validationCode routeParams) (validationEmail routeParams)])"
  using assms
  by (cases response)
     (simp_all add: attemptRegistration_def try_catch_def await_def do_nothing_def)

lemma validateCode_result:
  "validateCode routeParams s response =
     (Resolved,
      (case response of
         Inl e \<Rightarrow> s\<lparr>hasAcknowledgedError := False\<rparr>
       | Inr registrationComplete \<Rightarrow>
           if registrationComplete
           then s\<lparr>hasAcknowledgedError := False, accountAlreadyExists := True\<rparr>
           else s\<lparr>hasAcknowledgedError := False\<rparr>),
      [ValidateUserRegistrationRequest (validationCode routeParams)
         (validationEmail routeParams)])"
  by (cases response) (simp_all add: validateCode_def try_catch_def await_def do_nothing_def)

lemma loadAndCacheEula_completion:
  "fst (loadAndCacheEula language s response) = Resolved"
  by (cases response)
     (simp_all add: loadAndCacheEula_def try_catch_def await_def do_nothing_def)

lemma loadAndCacheEula_failure:
  "fst (snd (loadAndCacheEula language s (Inl e))) = s"
  by (simp add: loadAndCacheEula_def try_catch_def await_def do_nothing_def)

subsection \<open>How a handler moves the page index\<close>

lemma advancePage_index:
  assumes "advancePage ctx routeParams rs response s delta = Inr (s', effects)"
  shows "currentPage s' = currentPage s \<or>
         (currentPage s' = currentPage s + delta \<and> delta \<noteq> 0
          \<and> \<not> (currentPage s = 0 \<and> delta < 0)
          \<and> \<not> (currentPage s = int (length (RegistrationPages ctx s)) - 1 \<and> delta > 0))"
proof -
  obtain flat where flat: "flattenedDetails s = Inr flat"
    using flattenedDetails_total by blast
  show ?thesis
    using assms
    by (auto simp add: advancePage_def isFirstStep_def isLastStep_def
          attemptRegistration_result [OF flat] split: sum.splits if_splits)
qed

lemma advancePage_keeps_index_valid:
  assumes "advancePage ctx routeParams rs response s delta = Inr (s', effects)"
    and "delta \<in> {- 1, 0, 1}"
    and "0 \<le> currentPage s" and "currentPage s < int (length (RegistrationPages ctx s))"
  shows "0 \<le> currentPage s' \<and> currentPage s' < int (length (RegistrationPages ctx s'))"
proof -
  have len: "length (RegistrationPages ctx s') = length (RegistrationPages ctx s)"
    by (rule length_RegistrationPages_cells)
  from advancePage_index [OF assms(1)] assms(2-4) show ?thesis
    unfolding len by auto
qed

lemma backLogic_keeps_index_valid:
  assumes "backLogic ctx routeParams rs response s = Inr (s', effects)"
    and "0 \<le> currentPage s" and "currentPage s < int (length (RegistrationPages ctx s))"
  shows "0 \<le> currentPage s' \<and> currentPage s' < int (length (RegistrationPages ctx s'))"
proof (cases "isFirstStep s")
  case True
  with assms show ?thesis
    by (simp add: backLogic_def length_RegistrationPages)
next
  case False
  show ?thesis
  proof (cases "canGoBackProgress ctx s")
    case (Inl e)
    with assms(1) False show ?thesis by (simp add: backLogic_def)
  next
    case (Inr b)
    show ?thesis
    proof (cases b)
      case True
      with assms(1) False Inr
      have "advancePage ctx routeParams rs response s (- 1) = Inr (s', effects)"
        by (simp add: backLogic_def)
      then show ?thesis
        using advancePage_keeps_index_valid [OF _ _ assms(2,3)] by blast
    next
      case no_back: False
      with assms(1) False Inr have "s' = s"
        by (simp add: backLogic_def split: if_splits)
      with assms(2,3) show ?thesis by simp
    qed
  qed
qed

lemma registrationSuccessEffect_keeps_index_valid:
  assumes "0 \<le> currentPage s" and "currentPage s < int (length (RegistrationPages ctx s))"
  shows "0 \<le> currentPage (registrationSuccessEffect ctx rs s) \<and>
         currentPage (registrationSuccessEffect ctx rs s)
           < int (length (RegistrationPages ctx (registrationSuccessEffect ctx rs s)))"
  using assms
  by (simp add: registrationSuccessEffect_def CompletePage_def length_RegistrationPages)

subsection \<open>The example inputs, evaluated\<close>

lemma registrationSuccess_store_registered: "registrationSuccess store_registered"
  by (simp add: registrationSuccess_def store_registered_def succeeded_transit_def)

lemma registrationSuccess_store_validated: "\<not> registrationSuccess store_validated"
  by (simp add: registrationSuccess_def store_validated_def idle_transit_def)

lemma canProgress_details_entered: "canProgress no_custom_pages details_entered = Inr True"
  by (simp add: canProgress_def page_at_def no_custom_pages_length details_entered_def
        on_account_details_def initial_state_def RegistrationPages_def custom_pages_def
        customDetails_def no_custom_pages_def nullish_or_def)

lemma canProgress_on_account_details:
  "canProgress no_custom_pages on_account_details = Inr False"
  by (simp add: canProgress_def page_at_def no_custom_pages_length
        on_account_details_def initial_state_def RegistrationPages_def custom_pages_def
        customDetails_def no_custom_pages_def nullish_or_def)

lemma flattenedDetails_details_entered: "flattenedDetails details_entered = Inr Map.empty"
  by (simp add: flattenedDetails_def details_entered_def on_account_details_def
        initial_state_def nullish_or_def Object_keys_def)

lemma flattenedDetails_phone_entered:
  "flattenedDetails phone_entered = Inr [''phone'' \<mapsto> DString ''555'']"
  by (simp add: flattenedDetails_def phone_entered_def customDetailsChanged_def
        on_account_details_def initial_state_def nullish_or_def Object_keys_def)

section \<open>The claims\<close>

subsection \<open>C1: the jump on registration success\<close>

text \<open>
  Claim C1, as amended. When \<^verbatim>\<open>registrationSuccess\<close> has become true, the effect sets the
  page index to the last index exactly when the current page is the second-to-last page;
  at every other index it leaves the cells as they are. The last page is the Complete page.
\<close>

theorem registrationSuccess_jump:
  assumes "registrationSuccess rs"
  shows "registrationSuccessEffect ctx rs s =
           (if currentPage s = int (length (RegistrationPages ctx s)) - 2
            then s\<lparr>currentPage := int (length (RegistrationPages ctx s)) - 1\<rparr>
            else s)
         \<and> name (last (RegistrationPages ctx s)) = ''Complete''"
  using assms
  by (simp add: registrationSuccessEffect_def CompletePage_def RegistrationPages_def)

text \<open>With four pages and the index at 2, success moves the index to 3.\<close>

theorem registrationSuccess_jump_witness:
  "registrationSuccess store_registered
   \<and> currentPage (registrationSuccessEffect no_custom_pages store_registered
        (initial_state\<lparr>currentPage := 2\<rparr>)) = 3
   \<and> name (last (RegistrationPages no_custom_pages (initial_state\<lparr>currentPage := 2\<rparr>)))
       = ''Complete''"
proof -
  have len: "length (RegistrationPages no_custom_pages (initial_state\<lparr>currentPage := 2\<rparr>)) = 4"
    by (rule no_custom_pages_length)
  from registrationSuccess_jump
         [OF registrationSuccess_store_registered, of no_custom_pages
          "initial_state\<lparr>currentPage := 2\<rparr>"]
       registrationSuccess_store_registered
  show ?thesis
    by (simp add: len)
qed

text \<open>
  As first stated, for every prior index, the jump fails: with four pages, success
  observed while the index is 1 leaves the index at 1, and the Complete page is index 3.
\<close>

theorem registrationSuccess_jump_counterexample:
  "registrationSuccess store_registered
   \<and> currentPage (registrationSuccessEffect no_custom_pages store_registered
        (initial_state\<lparr>currentPage := 1\<rparr>)) = 1
   \<and> CompletePage no_custom_pages (initial_state\<lparr>currentPage := 1\<rparr>) = 3
   \<and> currentPage (registrationSuccessEffect no_custom_pages store_registered
        (initial_state\<lparr>currentPage := 1\<rparr>))
       \<noteq> CompletePage no_custom_pages (initial_state\<lparr>currentPage := 1\<rparr>)"
  by (simp add: registrationSuccess_store_registered registrationSuccessEffect_def
        CompletePage_def no_custom_pages_length)

subsection \<open>C2: the second-to-last page submits the registration\<close>

text \<open>
  Claim C2. On the second-to-last page, with \<^verbatim>\<open>delta > 0\<close>, the page's \<^verbatim>\<open>canGoForward\<close>
  true and registration not yet succeeded, \<^verbatim>\<open>advancePage(delta)\<close> sends exactly one
  registration request (the password, the account details merged with the flattened custom
  details, the code and the email) and leaves the page index unchanged; the one cell it
  writes is \<^verbatim>\<open>hasAcknowledgedError\<close>.
\<close>

theorem advancePage_submits_registration:
  assumes "currentPage s = int (length (RegistrationPages ctx s)) - 2"
    and "delta > 0"
    and "canProgress ctx s = Inr True"
    and "\<not> registrationSuccess rs"
  shows "\<exists>s' flat.
           flattenedDetails s = Inr flat \<and>
           advancePage ctx routeParams rs response s delta =
             Inr (s',
                  [CompleteRegistration
                     \<lparr>payload_password = password s,
                      payload_accountDetails =
                        nullish_or (map_option spread_details (accountDetails s))
                          emptyAccountDetailInformation ++ flat\<rparr>
                     (validationCode routeParams) (validationEmail routeParams)]) \<and>
           currentPage s' = currentPage s \<and>
           s' = s\<lparr>hasAcknowledgedError := False\<rparr>"
proof -
  obtain flat where flat: "flattenedDetails s = Inr flat"
    using flattenedDetails_total by blast
  have "\<not> isFirstStep s \<or> \<not> delta < 0" using assms(2) by simp
  moreover have "\<not> isLastStep ctx s" using assms(1) by (simp add: isLastStep_def)
  ultimately have "advancePage ctx routeParams rs response s delta =
      Inr (s\<lparr>hasAcknowledgedError := False\<rparr>,
           [CompleteRegistration
              \<lparr>payload_password = password s,
               payload_accountDetails =
                 nullish_or (map_option spread_details (accountDetails s))
                   emptyAccountDetailInformation ++ flat\<rparr>
              (validationCode routeParams) (validationEmail routeParams)])"
    using assms by (auto simp add: advancePage_def attemptRegistration_result [OF flat])
  with flat show ?thesis by simp
qed

text \<open>
  Four pages, both names entered, Next pressed on the AccountDetails page: one request,
  the index still 2.
\<close>

theorem advancePage_submits_registration_witness:
  "currentPage details_entered
     = int (length (RegistrationPages no_custom_pages details_entered)) - 2
   \<and> (0::int) < 1
   \<and> canProgress no_custom_pages details_entered = Inr True
   \<and> \<not> registrationSuccess store_validated
   \<and> advancePage no_custom_pages (Some \<lparr>code = Some ''ABC'', email = None\<rparr>) store_validated
        (Inr ()) details_entered 1
       = Inr (details_entered\<lparr>hasAcknowledgedError := False\<rparr>,
              [CompleteRegistration
                 \<lparr>payload_password = ''secret'',
                  payload_accountDetails =
                    [''firstName'' \<mapsto> DString ''Ada'', ''lastName'' \<mapsto> DString ''Byron'']\<rparr>
                 ''ABC'' None])
   \<and> currentPage (details_entered\<lparr>hasAcknowledgedError := False\<rparr>) = 2"
proof -
  have page: "currentPage details_entered
                = int (length (RegistrationPages no_custom_pages details_entered)) - 2"
    by (simp add: no_custom_pages_length details_entered_def on_account_details_def)
  have delta: "(0::int) < 1" by simp
  have fields: "password details_entered = ''secret''"
    "accountDetails details_entered = Some \<lparr>firstName = ''Ada'', lastName = ''Byron''\<rparr>"
    "currentPage details_entered = 2"
    by (simp_all add: details_entered_def on_account_details_def)
  from advancePage_submits_registration
         [OF page delta canProgress_details_entered registrationSuccess_store_validated,
          of "Some \<lparr>code = Some ''ABC'', email = None\<rparr>" "Inr ()"]
  obtain s' flat where flat: "flattenedDetails details_entered = Inr flat"
    and call: "advancePage no_custom_pages (Some \<lparr>code = Some ''ABC'', email = None\<rparr>)
                 store_validated (Inr ()) details_entered 1 =
               Inr (s',
                    [CompleteRegistration
                       \<lparr>payload_password = password details_entered,
                        payload_accountDetails =
                          nullish_or (map_option spread_details (accountDetails details_entered))
                            emptyAccountDetailInformation ++ flat\<rparr>
                       (validationCode (Some \<lparr>code = Some ''ABC'', email = None\<rparr>))
                       (validationEmail (Some \<lparr>code = Some ''ABC'', email = None\<rparr>))])"
    and cells: "s' = details_entered\<lparr>hasAcknowledgedError := False\<rparr>"
    by blast
  from flat have "flat = Map.empty"
    by (simp add: flattenedDetails_details_entered)
  with call cells
  have "advancePage no_custom_pages (Some \<lparr>code = Some ''ABC'', email = None\<rparr>) store_validated
          (Inr ()) details_entered 1
        = Inr (details_entered\<lparr>hasAcknowledgedError := False\<rparr>,
               [CompleteRegistration
                  \<lparr>payload_password = ''secret'',
                   payload_accountDetails =
                     [''firstName'' \<mapsto> DString ''Ada'', ''lastName'' \<mapsto> DString ''Byron'']\<rparr>
                  ''ABC'' None])"
    by (simp add: fields nullish_or_def spread_details_def validationCode_def
          validationEmail_def)
  with page canProgress_details_entered registrationSuccess_store_validated fields(3)
  show ?thesis by simp
qed

subsection \<open>C3: the page index stays inside the page list\<close>

text \<open>
  Claim C3, as amended. From the initial index 0, every cell the component reaches by its
  own handlers has a valid page index: \<^verbatim>\<open>advancePage\<close> with \<^verbatim>\<open>delta\<close> in \<open>{-1, 0, 1}\<close>
  (the only values the component passes), the hardware back logic, the
  registration-success jump, and the handlers that do not write the index.
\<close>

theorem reachable_index_valid:
  assumes "reachable ctx s"
  shows "0 \<le> currentPage s \<and> currentPage s < int (length (RegistrationPages ctx s))"
  using assms
proof (induction rule: reachable.induct)
  case at_mount
  show ?case by (simp add: initial_state_def length_RegistrationPages)
next
  case (by_advancePage s delta routeParams rs response s' effects)
  then show ?case using advancePage_keeps_index_valid by blast
next
  case (by_backLogic s routeParams rs response s' effects)
  then show ?case using backLogic_keeps_index_valid by blast
next
  case (by_success_effect s rs)
  then show ?case using registrationSuccessEffect_keeps_index_valid by blast
next
  case (by_other_handler s s')
  then show ?case by (simp add: length_RegistrationPages)
qed

text \<open>Next pressed once on the first page: index 1 of four pages is reached and valid.\<close>

theorem reachable_index_valid_witness:
  "reachable no_custom_pages (initial_state\<lparr>currentPage := 1\<rparr>)
   \<and> 0 \<le> currentPage (initial_state\<lparr>currentPage := 1\<rparr>)
   \<and> currentPage (initial_state\<lparr>currentPage := 1\<rparr>)
       < int (length (RegistrationPages no_custom_pages (initial_state\<lparr>currentPage := 1\<rparr>)))"
proof -
  have step: "advancePage no_custom_pages None store_idle (Inr ()) initial_state 1
                = Inr (initial_state\<lparr>currentPage := 1\<rparr>, [])"
    by (simp add: advancePage_def isFirstStep_def isLastStep_def initial_state_def
          no_custom_pages_length)
  have r: "reachable no_custom_pages (initial_state\<lparr>currentPage := 1\<rparr>)"
    by (rule reachable.by_advancePage [OF reachable.at_mount _ step]) simp
  from reachable_index_valid [OF r] r show ?thesis by simp
qed

text \<open>
  For any integer \<^verbatim>\<open>delta\<close> the invariant fails: \<^verbatim>\<open>advancePage(5)\<close> at the valid index 0 of
  four pages sets the index to 5.
\<close>

theorem advancePage_index_counterexample:
  "0 \<le> currentPage initial_state
   \<and> currentPage initial_state < int (length (RegistrationPages no_custom_pages initial_state))
   \<and> advancePage no_custom_pages None store_idle (Inr ()) initial_state 5
       = Inr (initial_state\<lparr>currentPage := 5\<rparr>, [])
   \<and> \<not> currentPage (initial_state\<lparr>currentPage := 5\<rparr>)
         < int (length (RegistrationPages no_custom_pages (initial_state\<lparr>currentPage := 5\<rparr>)))"
  by (simp add: advancePage_def isFirstStep_def isLastStep_def initial_state_def
        no_custom_pages_length)

subsection \<open>C4: the top-level view\<close>

text \<open>
  Claim C4. The render selects one of four views by priority: the existing-account view
  first, then the wizard when validation succeeded and is not in flight, then the loading
  view when validation is not complete, then the error state. Whenever
  \<^verbatim>\<open>accountAlreadyExists\<close> is true the existing-account view is rendered, not the wizard;
  that is the view after a validation that answers that the account exists.
\<close>

theorem render_selects_by_priority:
  "render rs s = render_by_priority rs s
   \<and> (accountAlreadyExists s
        \<longrightarrow> render rs s = ExistingAccountView \<and> render rs s \<noteq> WizardView)
   \<and> render rs (fst (snd (validateCode routeParams s (Inr True)))) = ExistingAccountView"
  by (simp add: render_def render_by_priority_def validateCode_result)

text \<open>
  The existing-account view wins over a succeeded validation; without it a succeeded
  validation shows the wizard and an idle store the loading view.
\<close>

theorem render_selects_by_priority_witness:
  "accountAlreadyExists (initial_state\<lparr>accountAlreadyExists := True\<rparr>)
   \<and> render store_validated (initial_state\<lparr>accountAlreadyExists := True\<rparr>) = ExistingAccountView
   \<and> render store_validated initial_state = WizardView
   \<and> render store_idle initial_state = LoadingView"
  using render_selects_by_priority
          [of store_validated "initial_state\<lparr>accountAlreadyExists := True\<rparr>" None]
        render_selects_by_priority [of store_validated initial_state None]
        render_selects_by_priority [of store_idle initial_state None]
  by (simp add: render_by_priority_def initial_state_def store_validated_def store_idle_def
        idle_transit_def succeeded_transit_def validationSuccess_def isValidationInTransit_def
        validationComplete_def)

subsection \<open>C5: leaving the wizard at its two ends\<close>


subsection \<open>C6: validating the invite code\<close>

text \<open>
  Claim C6, as amended. A run of the validation effect sends one validation request, with
  the code and the email of the route parameters (the code \<^verbatim>\<open>NoCodeEntered\<close> when none was
  given), exactly when validation is neither in flight nor complete and the code is not
  the empty string; otherwise it sends nothing. The code \<^verbatim>\<open>ABC\<close> without an email is
  validated as \<^verbatim>\<open>("ABC", undefined)\<close>.
\<close>

theorem validationEffect_requests:
  "snd (validationEffect routeParams rs s response) =
     (if \<not> isValidationInTransit rs \<and> \<not> validationComplete rs
         \<and> validationCode routeParams \<noteq> ''''
      then [ValidateUserRegistrationRequest (validationCode routeParams)
              (validationEmail routeParams)]
      else [])
   \<and> validationCode (Some \<lparr>code = Some ''ABC'', email = None\<rparr>) = ''ABC''
   \<and> validationEmail (Some \<lparr>code = Some ''ABC'', email = None\<rparr>) = None
   \<and> validationCode None = ''NoCodeEntered''"
  by (simp add: validationEffect_def validateCode_result validationCode_def
        validationEmail_def nullish_or_def)

text \<open>
  As first stated the claim fails for the empty code: on mount, with validation neither in
  flight nor complete, no request is sent.
\<close>

theorem validationEffect_counterexample:
  "\<not> isValidationInTransit store_idle \<and> \<not> validationComplete store_idle
   \<and> snd (validationEffect (Some \<lparr>code = Some '''', email = None\<rparr>) store_idle initial_state
            (Inr False)) = []"
  by (simp add: validationEffect_def validationCode_def nullish_or_def store_idle_def
        idle_transit_def isValidationInTransit_def validationComplete_def)

subsection \<open>C7: going forward is gated only in the registration branch\<close>

text \<open>
  Claim C7. On every page but the last (so on every non-first, non-last page) where the
  conditions of the registration branch do not all hold, \<^verbatim>\<open>advancePage(1)\<close> increments the
  index and does nothing else, whatever the page's \<^verbatim>\<open>canGoForward\<close>. In particular, on the
  second-to-last page with \<^verbatim>\<open>canGoForward\<close> false it moves to the Complete page and sends
  no registration request.
\<close>

theorem advancePage_forward_not_gated:
  "(currentPage s \<noteq> int (length (RegistrationPages ctx s)) - 1
      \<and> \<not> (currentPage s = int (length (RegistrationPages ctx s)) - 2
            \<and> \<not> registrationSuccess rs \<and> canProgress ctx s = Inr True)
    \<longrightarrow> advancePage ctx routeParams rs response s 1
          = Inr (s\<lparr>currentPage := currentPage s + 1\<rparr>, []))
   \<and> (currentPage s = int (length (RegistrationPages ctx s)) - 2
        \<and> canProgress ctx s = Inr False
      \<longrightarrow> advancePage ctx routeParams rs response s 1
            = Inr (s\<lparr>currentPage := CompletePage ctx s\<rparr>, []))"
proof -
  have "\<exists>b. canProgress ctx s = Inr b"
    if "currentPage s = int (length (RegistrationPages ctx s)) - 2"
    using canProgress_second_to_last [OF that] by blast
  then show ?thesis
    by (auto simp add: advancePage_def isFirstStep_def isLastStep_def CompletePage_def)
qed

text \<open>
  Four pages, the name fields empty, Next on the AccountDetails page: the index becomes 3,
  the Complete page, and nothing is sent.
\<close>

theorem advancePage_forward_not_gated_witness:
  "currentPage on_account_details
     \<noteq> int (length (RegistrationPages no_custom_pages on_account_details)) - 1
   \<and> currentPage on_account_details
       = int (length (RegistrationPages no_custom_pages on_account_details)) - 2
   \<and> canProgress no_custom_pages on_account_details = Inr False
   \<and> advancePage no_custom_pages None store_validated (Inr ()) on_account_details 1
       = Inr (on_account_details\<lparr>currentPage := 3\<rparr>, [])"
proof -
  have page: "currentPage on_account_details
                = int (length (RegistrationPages no_custom_pages on_account_details)) - 2"
    by (simp add: no_custom_pages_length on_account_details_def)
  have not_last: "currentPage on_account_details
                    \<noteq> int (length (RegistrationPages no_custom_pages on_account_details)) - 1"
    by (simp add: no_custom_pages_length on_account_details_def)
  have complete: "CompletePage no_custom_pages on_account_details = 3"
    by (simp add: CompletePage_def no_custom_pages_length)
  note inst = advancePage_forward_not_gated
               [of on_account_details no_custom_pages store_validated None "Inr ()"]
  from inst page canProgress_on_account_details
  have "advancePage no_custom_pages None store_validated (Inr ()) on_account_details 1
          = Inr (on_account_details
                   \<lparr>currentPage := CompletePage no_custom_pages on_account_details\<rparr>, [])"
    by blast
  with page not_last canProgress_on_account_details complete show ?thesis by simp
qed

subsection \<open>C8: failures of the requests are swallowed\<close>

text \<open>
  Claim C8, as amended. Whatever the request answers, \<^verbatim>\<open>validateCode\<close>,
  \<^verbatim>\<open>attemptRegistration\<close> and \<^verbatim>\<open>loadAndCacheEula\<close> resolve: no rejection leaves them, and a
  rejection leaves no trace of the error in the cells. What the user sees of an error
  comes only from the transit error message of the store, by one path for each operation.
  A registration error is shown by the dismissible dialog: visible when the registration
  transit has a message that has not been acknowledged, its body that message, hidden once
  dismissed. A validation error is shown by the full-screen error state, whose body is the
  message of the validation transit. A EULA error is handed to the Eula page as its
  \<^verbatim>\<open>eulaError\<close>, the message of the EULA transit.
\<close>

theorem async_failures_are_swallowed:
  "fst (validateCode routeParams s validation_response) = Resolved
   \<and> fst (attemptRegistration routeParams s registration_response) = Resolved
   \<and> fst (loadAndCacheEula language s eula_response) = Resolved
   \<and> fst (snd (validateCode routeParams s (Inl e))) = s\<lparr>hasAcknowledgedError := False\<rparr>
   \<and> fst (snd (attemptRegistration routeParams s (Inl e))) = s\<lparr>hasAcknowledgedError := False\<rparr>
   \<and> fst (snd (loadAndCacheEula language s (Inl e))) = s
   \<and> dialog_visible (errorDialog t rs s)
       = (transitErrorMessage (registrationTransit rs) \<noteq> None \<and> \<not> hasAcknowledgedError s)
   \<and> dialog_bodyText (errorDialog t rs s)
       = t (case transitErrorMessage (registrationTransit rs) of
              None \<Rightarrow> t ''MESSAGES.REQUEST_ERROR'' | Some message \<Rightarrow> message)
   \<and> \<not> dialog_visible (errorDialog t rs (onDismiss s))
   \<and> (\<not> accountAlreadyExists s \<and> validationComplete rs \<and> \<not> validationSuccess rs
        \<longrightarrow> render rs s = ErrorStateView (transitErrorMessage (validationTransit rs)))
   \<and> (render rs s = ErrorStateView bodyText
        \<longrightarrow> bodyText = transitErrorMessage (validationTransit rs))
   \<and> eula_eulaError (EulaPage_body htmlEula rs s) = transitErrorMessage (eulaTransit rs)"
proof -
  obtain flat where flat: "flattenedDetails s = Inr flat"
    using flattenedDetails_total by blast
  have operations:
    "fst (validateCode routeParams s validation_response) = Resolved"
    "fst (attemptRegistration routeParams s registration_response) = Resolved"
    "fst (loadAndCacheEula language s eula_response) = Resolved"
    "fst (snd (validateCode routeParams s (Inl e))) = s\<lparr>hasAcknowledgedError := False\<rparr>"
    "fst (snd (attemptRegistration routeParams s (Inl e))) = s\<lparr>hasAcknowledgedError := False\<rparr>"
    "fst (snd (loadAndCacheEula language s (Inl e))) = s"
    by (simp_all add: validateCode_result attemptRegistration_result [OF flat]
          loadAndCacheEula_completion loadAndCacheEula_failure)
  have dialog:
    "dialog_visible (errorDialog t rs s)
       = (transitErrorMessage (registrationTransit rs) \<noteq> None \<and> \<not> hasAcknowledgedError s)"
    "dialog_bodyText (errorDialog t rs s)
       = t (case transitErrorMessage (registrationTransit rs) of
              None \<Rightarrow> t ''MESSAGES.REQUEST_ERROR'' | Some message \<Rightarrow> message)"
    "\<not> dialog_visible (errorDialog t rs (onDismiss s))"
    by (simp_all add: errorDialog_def onDismiss_def hasRegistrationTransitError_def
          registrationTransitErrorMessage_def nullish_or_def)
  have error_state:
    "\<not> accountAlreadyExists s \<and> validationComplete rs \<and> \<not> validationSuccess rs
       \<longrightarrow> render rs s = ErrorStateView (transitErrorMessage (validationTransit rs))"
    "render rs s = ErrorStateView bodyText
       \<longrightarrow> bodyText = transitErrorMessage (validationTransit rs)"
    by (simp_all add: render_def validationTransitErrorMessage_def split: if_splits)
  have eula: "eula_eulaError (EulaPage_body htmlEula rs s) = transitErrorMessage (eulaTransit rs)"
    by (simp add: EulaPage_body_def loadEulaTransitErrorMessage_def)
  from operations dialog error_state eula show ?thesis by blast
qed

text \<open>
  After a failed validation the error state is rendered, with the message of the
  validation transit as its body.
\<close>

theorem async_failures_are_swallowed_witness:
  "\<not> accountAlreadyExists initial_state
   \<and> validationComplete store_validation_failed
   \<and> \<not> validationSuccess store_validation_failed
   \<and> render store_validation_failed initial_state = ErrorStateView (Some ''Invalid code'')
   \<and> Some ''Invalid code'' = transitErrorMessage (validationTransit store_validation_failed)"
proof -
  have hyps: "\<not> accountAlreadyExists initial_state"
    "validationComplete store_validation_failed"
    "\<not> validationSuccess store_validation_failed"
    by (simp_all add: initial_state_def validationComplete_def validationSuccess_def
          store_validation_failed_def failed_transit_def)
  have message: "transitErrorMessage (validationTransit store_validation_failed)
                   = Some ''Invalid code''"
    by (simp add: store_validation_failed_def failed_transit_def)
  note inst = async_failures_are_swallowed
                [where rs = store_validation_failed and s = initial_state
                   and bodyText = "Some ''Invalid code''"]
  from inst hyps
  have shown: "render store_validation_failed initial_state
                 = ErrorStateView (transitErrorMessage (validationTransit store_validation_failed))"
    by blast
  then have view: "render store_validation_failed initial_state
                     = ErrorStateView (Some ''Invalid code'')"
    by (simp add: message)
  with inst
  have "Some ''Invalid code'' = transitErrorMessage (validationTransit store_validation_failed)"
    by blast
  with hyps view show ?thesis by simp
qed

text \<open>
  As first stated, with every operation's error shown by the dismissible dialog, the
  claim fails for two of the three. A rejected validation that the store records as failed
  is shown by the error state while the dialog is not visible; a failed EULA load is
  handed to the Eula page, the wizard is shown, and the dialog is not visible.
\<close>

theorem async_failures_are_swallowed_counterexample:
  "fst (validateCode None initial_state (Inl (Rejection ''Invalid code''))) = Resolved
   \<and> render store_validation_failed
        (fst (snd (validateCode None initial_state (Inl (Rejection ''Invalid code'')))))
       = ErrorStateView (Some ''Invalid code'')
   \<and> \<not> dialog_visible
         (errorDialog (\<lambda>key. key) store_validation_failed
            (fst (snd (validateCode None initial_state (Inl (Rejection ''Invalid code''))))))
   \<and> fst (loadAndCacheEula ''en'' initial_state (Inl (Rejection ''No connection''))) = Resolved
   \<and> eula_eulaError
        (EulaPage_body None store_eula_failed
           (fst (snd (loadAndCacheEula ''en'' initial_state
                        (Inl (Rejection ''No connection''))))))
       = Some ''No connection''
   \<and> render store_eula_failed
        (fst (snd (loadAndCacheEula ''en'' initial_state (Inl (Rejection ''No connection'')))))
       = WizardView
   \<and> \<not> dialog_visible
         (errorDialog (\<lambda>key. key) store_eula_failed
            (fst (snd (loadAndCacheEula ''en'' initial_state
                         (Inl (Rejection ''No connection''))))))"
  by (simp add: validateCode_result loadAndCacheEula_completion loadAndCacheEula_failure
        render_def errorDialog_def EulaPage_body_def loadEulaTransitErrorMessage_def
        hasRegistrationTransitError_def validationTransitErrorMessage_def
        validationSuccess_def validationComplete_def isValidationInTransit_def
        store_validation_failed_def store_eula_failed_def failed_transit_def
        idle_transit_def succeeded_transit_def initial_state_def)

subsection \<open>C9: a zero delta\<close>

text \<open>
  Claim C9. \<^verbatim>\<open>advancePage(0)\<close>, on every page, returns at once: the page index and every
  other cell are unchanged, and nothing is sent or navigated.
\<close>

theorem advancePage_zero_is_noop:
  "advancePage ctx routeParams rs response s 0 = Inr (s, [])"
  by (simp add: advancePage_def)

subsection \<open>C10: registering without account details\<close>

text \<open>
  Claim C10. When \<^verbatim>\<open>accountDetails\<close> is null, \<^verbatim>\<open>attemptRegistration\<close> does not fail: it
  resolves, having sent the empty defaults (first and last name the empty string) merged
  with the flattened custom details, with the password.
\<close>

theorem attemptRegistration_without_accountDetails:
  assumes "accountDetails s = None"
  shows "\<exists>flat. flattenedDetails s = Inr flat \<and>
           attemptRegistration routeParams s response =
             (Resolved, s\<lparr>hasAcknowledgedError := False\<rparr>,
              [CompleteRegistration
                 \<lparr>payload_password = password s,
                  payload_accountDetails =
                    [''firstName'' \<mapsto> DString '''', ''lastName'' \<mapsto> DString ''''] ++ flat\<rparr>
                 (validationCode routeParams) (validationEmail routeParams)])"
proof -
  obtain flat where flat: "flattenedDetails s = Inr flat"
    using flattenedDetails_total by blast
  with assms show ?thesis
    by (simp add: attemptRegistration_result [OF flat] nullish_or_def
          emptyAccountDetailInformation_def)
qed

text \<open>
  No names entered, a phone number reported by a custom page: the request carries the two
  empty names and the phone number.
\<close>

theorem attemptRegistration_without_accountDetails_witness:
  "accountDetails phone_entered = None
   \<and> attemptRegistration None phone_entered (Inr ())
       = (Resolved, phone_entered\<lparr>hasAcknowledgedError := False\<rparr>,
          [CompleteRegistration
             \<lparr>payload_password = ''secret'',
              payload_accountDetails =
                [''firstName'' \<mapsto> DString '''', ''lastName'' \<mapsto> DString '''',
                 ''phone'' \<mapsto> DString ''555'']\<rparr>
             ''NoCodeEntered'' None])"
proof -
  have no_details: "accountDetails phone_entered = None"
    by (simp add: phone_entered_def customDetailsChanged_def on_account_details_def
          initial_state_def)
  have pw: "password phone_entered = ''secret''"
    by (simp add: phone_entered_def customDetailsChanged_def on_account_details_def)
  from attemptRegistration_without_accountDetails [OF no_details, of None "Inr ()"]
  have "attemptRegistration None phone_entered (Inr ())
       = (Resolved, phone_entered\<lparr>hasAcknowledgedError := False\<rparr>,
          [CompleteRegistration
             \<lparr>payload_password = ''secret'',
              payload_accountDetails =
                [''firstName'' \<mapsto> DString '''', ''lastName'' \<mapsto> DString '''',
                 ''phone'' \<mapsto> DString ''555'']\<rparr>
             ''NoCodeEntered'' None])"
    by (simp add: flattenedDetails_phone_entered pw validationCode_def validationEmail_def
          nullish_or_def)
  with no_details show ?thesis by simp
qed

end
